theory Spec2Isabelle
  imports Complex_Main "HOL-Library.AList"
begin

section \<open>Data model\<close>

text \<open>
  A LangChain \<open>Document\<close> carries its text (\<open>page_content\<close>) and a metadata dictionary.
  The metadata values the repository stores are strings (\<open>filename\<close>, \<open>section\<close>,
  \<open>doc_id\<close>) and integers (\<open>page\<close>, \<open>chunk_index\<close>); the dictionary is an association
  list read with \<open>map_of\<close>, which is Python's \<open>metadata.get\<close>.

  Python floats are idealised as real numbers throughout: scores are compared, added,
  multiplied and divided as reals, without rounding.
\<close>

datatype meta_value = MStr string | MInt int

record document =
  page_content :: string
  metadata :: "(string \<times> meta_value) list"

type_synonym scored = "document \<times> real"

section \<open>Score normalisation (\<open>normalize_scores\<close> in \<open>vector_store.py\<close>)\<close>

text \<open>
  \<^verbatim>\<open>
  def normalize_scores(results):
      if not results:
          return []
      scores = [score for _, score in results]
      max_score = max(scores) if scores else 1.0
      min_score = min(scores) if scores else 0.0
      score_range = max_score - min_score if max_score != min_score else 1.0
      return [(doc, (score - min_score) / score_range) for doc, score in results]
  \<close>
  Python's \<open>max\<close> and \<open>min\<close> run over the list from its first element.
\<close>

definition py_max :: "real list \<Rightarrow> real" where
  "py_max scores = fold max (tl scores) (hd scores)"

definition py_min :: "real list \<Rightarrow> real" where
  "py_min scores = fold min (tl scores) (hd scores)"

definition normalize_scores :: "('d \<times> real) list \<Rightarrow> ('d \<times> real) list" where
  "normalize_scores results =
     (if results = [] then []
      else
        let scores = map snd results;
            max_score = (if scores \<noteq> [] then py_max scores else 1);
            min_score = (if scores \<noteq> [] then py_min scores else 0);
            score_range = (if max_score \<noteq> min_score then max_score - min_score else 1)
        in map (\<lambda>(doc, score). (doc, (score - min_score) / score_range)) results)"

section \<open>Configuration and the external collaborators\<close>

text \<open>
  \<open>Config\<close> holds the settings the retrieval and the orchestrator read. The Chroma store's
  \<open>similarity_search_with_relevance_scores\<close> is an external call; it is a parameter of
  the model, a function from the query and the number of results asked for to a list of
  scored documents. \<open>k or Config.TOP_K_RESULTS\<close> replaces \<open>None\<close> and \<open>0\<close> by the
  configured default. The number of results \<open>k\<close> is a natural number.
\<close>

record config =
  TOP_K_RESULTS :: nat
  SIMILARITY_THRESHOLD :: real
  ENABLE_CONVERSATION_MEMORY :: bool

datatype error = IndexError | ValueError | ZeroDivisionError

type_synonym store_search = "string \<Rightarrow> nat \<Rightarrow> scored list"

definition k_or_default :: "config \<Rightarrow> nat option \<Rightarrow> nat" where
  "k_or_default cfg k =
     (case k of
        None \<Rightarrow> TOP_K_RESULTS cfg
      | Some n \<Rightarrow> if n = 0 then TOP_K_RESULTS cfg else n)"

definition similarity_search ::
  "config \<Rightarrow> store_search \<Rightarrow> string \<Rightarrow> nat option \<Rightarrow> scored list" where
  "similarity_search cfg store query k =
     (let k = k_or_default cfg k;
          results = store query k
      in filter (\<lambda>(doc, score). score \<ge> SIMILARITY_THRESHOLD cfg) results)"

section \<open>Tokenisation (\<open>text.lower().split()\<close>)\<close>

text \<open>
  Strings are ASCII. \<open>str.split()\<close> without argument cuts at runs of whitespace and
  drops empty pieces; the whitespace characters of ASCII are the codes 9 to 13, 28 to 31
  and 32.
\<close>

definition is_space :: "char \<Rightarrow> bool" where
  "is_space c = (of_char c \<in> set [9, 10, 11, 12, 13, 28, 29, 30, 31, 32 :: nat])"

definition lower_char :: "char \<Rightarrow> char" where
  "lower_char c =
     (case map_of (zip ''ABCDEFGHIJKLMNOPQRSTUVWXYZ'' ''abcdefghijklmnopqrstuvwxyz'') c of
        Some l \<Rightarrow> l
      | None \<Rightarrow> c)"

definition py_lower :: "string \<Rightarrow> string" where
  "py_lower s = map lower_char s"

fun split_from :: "string \<Rightarrow> string \<Rightarrow> string list" where
  "split_from cur [] = (if cur = [] then [] else [cur])"
| "split_from cur (c # cs) =
     (if is_space c then (if cur = [] then split_from [] cs else cur # split_from [] cs)
      else split_from (cur @ [c]) cs)"

definition py_split :: "string \<Rightarrow> string list" where
  "py_split s = split_from [] s"

section \<open>The external BM25 index (\<open>rank_bm25.BM25Okapi\<close>)\<close>

text \<open>
  \<open>BM25Okapi\<close> is the class of the external \<open>rank_bm25\<close> package. Built over a tokenised
  corpus it keeps, for each word, the number of documents holding it and the inverse
  document frequency \<open>log(N - n + 0.5) - log(n + 0.5)\<close> (replaced by a quarter of the
  average over the vocabulary when negative), with \<open>k1 = 1.5\<close> and \<open>b = 0.75\<close>;
  \<open>get_scores(query)\<close> gives one score per corpus document, the sum over the query
  words of \<open>idf * f * (k1 + 1) / (f + k1 * (1 - b + b * len / avgdl))\<close>, where \<open>f\<close>
  counts the word in the document. A word outside the vocabulary contributes 0. The
  constructor divides the sum of the inverse document frequencies by the size of the
  vocabulary, and the sum of the document lengths by the number of documents: on a corpus
  without any word it raises \<open>ZeroDivisionError\<close>.
\<close>

definition doc_count :: "string list list \<Rightarrow> string \<Rightarrow> nat" where
  "doc_count corpus word = length (filter (\<lambda>document. word \<in> set document) corpus)"

definition raw_idf :: "string list list \<Rightarrow> string \<Rightarrow> real" where
  "raw_idf corpus word =
     ln (real (length corpus) - real (doc_count corpus word) + 1 / 2) -
     ln (real (doc_count corpus word) + 1 / 2)"

definition vocabulary :: "string list list \<Rightarrow> string list" where
  "vocabulary corpus = remdups (concat corpus)"

definition average_idf :: "string list list \<Rightarrow> real" where
  "average_idf corpus =
     sum_list (map (raw_idf corpus) (vocabulary corpus)) / real (length (vocabulary corpus))"

definition idf :: "string list list \<Rightarrow> string \<Rightarrow> real" where
  "idf corpus word =
     (if word \<in> set (vocabulary corpus)
      then (if raw_idf corpus word < 0 then 1 / 4 * average_idf corpus else raw_idf corpus word)
      else 0)"

definition avgdl :: "string list list \<Rightarrow> real" where
  "avgdl corpus = real (sum_list (map length corpus)) / real (length corpus)"

definition term_score :: "string list list \<Rightarrow> string \<Rightarrow> string list \<Rightarrow> real" where
  "term_score corpus word document =
     idf corpus word *
       (real (count_list document word) * (3 / 2 + 1) /
          (real (count_list document word) +
             3 / 2 * (1 - 3 / 4 + 3 / 4 * real (length document) / avgdl corpus)))"

definition get_scores :: "string list list \<Rightarrow> string list \<Rightarrow> real list" where
  "get_scores corpus query =
     map (\<lambda>document. sum_list (map (\<lambda>word. term_score corpus word document) query)) corpus"

definition BM25Okapi :: "string list list \<Rightarrow> error + (string list \<Rightarrow> real list)" where
  "BM25Okapi corpus =
     (if vocabulary corpus = [] then Inl ZeroDivisionError
      else Inr (get_scores corpus))"

section \<open>The lexical index (\<open>HybridRetriever\<close>)\<close>

text \<open>
  The retriever keeps the documents and the BM25 index built over them; \<open>bm25\<close> holds
  the \<open>get_scores\<close> of the index and is \<open>None\<close> until a non-empty corpus has been
  indexed.
  \<^verbatim>\<open>
  def __init__(self, vector_store):
      self.vector_store = vector_store
      self.bm25 = None
      self.documents = []
      self._update_bm25_index()

  def _update_bm25_index(self):
      self.documents = self.vector_store.get_all_documents()
      if self.documents:
          tokenized_docs = [doc.page_content.lower().split() for doc in self.documents]
          self.bm25 = BM25Okapi(tokenized_docs)
  \<close>
\<close>

record retriever =
  documents :: "document list"
  bm25 :: "(string list \<Rightarrow> real list) option"

definition tokenize :: "string \<Rightarrow> string list" where
  "tokenize s = py_split (py_lower s)"

definition update_bm25_index :: "document list \<Rightarrow> retriever \<Rightarrow> error + retriever" where
  "update_bm25_index all_documents r =
     (let r = r\<lparr>documents := all_documents\<rparr>
      in if documents r \<noteq> []
         then let tokenized_docs = map (\<lambda>doc. tokenize (page_content doc)) (documents r)
              in (case BM25Okapi tokenized_docs of
                    Inl e \<Rightarrow> Inl e
                  | Inr index \<Rightarrow> Inr (r\<lparr>bm25 := Some index\<rparr>))
         else Inr r)"

definition HybridRetriever_init :: "document list \<Rightarrow> error + retriever" where
  "HybridRetriever_init all_documents =
     update_bm25_index all_documents \<lparr>documents = [], bm25 = None\<rparr>"


fun collect_results :: "document list \<Rightarrow> real list \<Rightarrow> nat list \<Rightarrow> error + scored list" where
  "collect_results docs scores [] = Inr []"
| "collect_results docs scores (idx # rest) =
     (if idx < length scores
      then (if scores ! idx > 0
            then (if idx < length docs
                  then (case collect_results docs scores rest of
                          Inl e \<Rightarrow> Inl e
                        | Inr results \<Rightarrow> Inr ((docs ! idx, scores ! idx) # results))
                  else Inl IndexError)
            else collect_results docs scores rest)
      else Inl IndexError)"

definition bm25_search ::
  "(real list \<Rightarrow> nat list) \<Rightarrow> retriever \<Rightarrow> string \<Rightarrow> nat \<Rightarrow> error + scored list" where
  "bm25_search np_argsort r query k =
     (case bm25 r of
        None \<Rightarrow> Inr []
      | Some index \<Rightarrow>
          let tokenized_query = tokenize query;
              scores = index tokenized_query;
              top_indices = take k (rev (np_argsort scores))
          in collect_results (documents r) scores top_indices)"




section \<open>Hybrid fusion (\<open>HybridRetriever.hybrid_search\<close>)\<close>

text \<open>
  \<open>combined_scores\<close> is a Python dictionary from the chunk text to its document and
  score. A dictionary keeps its keys in insertion order and an assignment to a key that
  is present leaves the key where it is, so it is an association list updated in place.
  \<^verbatim>\<open>
  for doc, score in vector_results:
      doc_key = doc.page_content
      combined_scores[doc_key] = {'doc': doc, 'score': alpha * score}
  for doc, score in bm25_results:
      doc_key = doc.page_content
      if doc_key in combined_scores:
          combined_scores[doc_key]['score'] += (1 - alpha) * score
      else:
          combined_scores[doc_key] = {'doc': doc, 'score': (1 - alpha) * score}
  sorted_results = sorted(combined_scores.values(), key=lambda x: x['score'], reverse=True)
  return [(item['doc'], item['score']) for item in sorted_results[:k]]
  \<close>
  Python's \<open>sorted\<close> is stable, also with \<open>reverse=True\<close>: items of equal score keep
  their order. \<open>sort_key\<close> on the negated score is that sort.
\<close>

type_synonym combined = "(string \<times> document \<times> real) list"

definition add_vector :: "real \<Rightarrow> scored \<Rightarrow> combined \<Rightarrow> combined" where
  "add_vector alpha = (\<lambda>(doc, score) combined_scores.
     AList.update (page_content doc) (doc, alpha * score) combined_scores)"

definition add_bm25 :: "real \<Rightarrow> scored \<Rightarrow> combined \<Rightarrow> combined" where
  "add_bm25 alpha = (\<lambda>(doc, score) combined_scores.
     (case map_of combined_scores (page_content doc) of
        Some (doc0, score0) \<Rightarrow>
          AList.update (page_content doc) (doc0, score0 + (1 - alpha) * score) combined_scores
      | None \<Rightarrow>
          AList.update (page_content doc) (doc, (1 - alpha) * score) combined_scores))"

definition combine_scores :: "real \<Rightarrow> scored list \<Rightarrow> scored list \<Rightarrow> combined" where
  "combine_scores alpha vector_results bm25_results =
     fold (add_bm25 alpha) bm25_results (fold (add_vector alpha) vector_results [])"

definition hybrid_search ::
  "(real list \<Rightarrow> nat list) \<Rightarrow> config \<Rightarrow> store_search \<Rightarrow> retriever \<Rightarrow> string \<Rightarrow>
   nat option \<Rightarrow> real \<Rightarrow> error + scored list" where
  "hybrid_search np_argsort cfg store r query k alpha =
     (let k = k_or_default cfg k;
          vector_results = similarity_search cfg store query (Some (k * 2))
      in case bm25_search np_argsort r query (k * 2) of
           Inl e \<Rightarrow> Inl e
         | Inr bm25_results \<Rightarrow>
             let vector_results = normalize_scores vector_results;
                 bm25_results = normalize_scores bm25_results;
                 combined_scores = combine_scores alpha vector_results bm25_results;
                 sorted_results = sort_key (\<lambda>(doc, score). - score) (map snd combined_scores)
             in Inr (take k sorted_results))"

text \<open>
  The fusion as the specification words it. \<open>score_in results key\<close> is the score of the
  chunk with text \<open>key\<close> in a candidate list, and 0 when the list has no such chunk.
  The candidates are the chunks of the semantic list followed by the chunks of the lexical
  list whose text the semantic list does not hold (the order of first encounter); each
  gets \<open>alpha * semantic + (1 - alpha) * lexical\<close>; the result is the first \<open>k\<close> of
  the candidates in descending order of combined score, ties in candidate order.
\<close>

definition score_in :: "scored list \<Rightarrow> string \<Rightarrow> real" where
  "score_in results key =
     (case find (\<lambda>(doc, score). page_content doc = key) results of
        None \<Rightarrow> 0
      | Some (doc, score) \<Rightarrow> score)"

definition texts :: "scored list \<Rightarrow> string list" where
  "texts results = map (\<lambda>(doc, score). page_content doc) results"

definition fusion_candidates :: "scored list \<Rightarrow> scored list \<Rightarrow> document list" where
  "fusion_candidates vector_results bm25_results =
     map fst vector_results @
     map fst (filter (\<lambda>(doc, score). page_content doc \<notin> set (texts vector_results)) bm25_results)"

definition fused :: "real \<Rightarrow> scored list \<Rightarrow> scored list \<Rightarrow> scored list" where
  "fused alpha vector_results bm25_results =
     map (\<lambda>doc. (doc, alpha * score_in vector_results (page_content doc) +
                      (1 - alpha) * score_in bm25_results (page_content doc)))
       (fusion_candidates vector_results bm25_results)"

definition fusion_spec :: "real \<Rightarrow> scored list \<Rightarrow> scored list \<Rightarrow> nat \<Rightarrow> scored list" where
  "fusion_spec alpha vector_results bm25_results k =
     take k (sort_key (\<lambda>(doc, score). - score) (fused alpha vector_results bm25_results))"

section \<open>Citation extraction (\<open>RAGChain._extract_citations\<close>)\<close>

text \<open>
  \<^verbatim>\<open>
  citation_pattern = r'\[Source:\s*([^,\]]+)(?:,\s*Page:\s*(\d+))?(?:,\s*Section:\s*([^\]]+))?\]'
  matches = re.finditer(citation_pattern, answer)
  \<close>
  Python's \<open>re\<close> is a backtracking matcher: a greedy repetition tries its longest
  match first and gives characters back one at a time while the rest of the pattern
  fails; an optional group is tried before it is skipped. Each part of the pattern is a
  function from the input to the list of its possible matches in that order (what it
  captured and the input left); the parts are chained in pattern order, so the head of
  the list is the match \<open>re\<close> reports at this position. On ASCII text \<open>\s\<close> is
  \<open>is_space\<close> and \<open>\d\<close> a decimal digit.
\<close>

definition lit :: "string \<Rightarrow> string \<Rightarrow> string list" where
  "lit w s = (if take (length w) s = w then [drop (length w) s] else [])"

definition greedy :: "(char \<Rightarrow> bool) \<Rightarrow> nat \<Rightarrow> string \<Rightarrow> (string \<times> string) list" where
  "greedy P least s =
     map (\<lambda>n. (take n s, drop n s)) (rev [least..<Suc (length (takeWhile P s))])"

definition is_digit :: "char \<Rightarrow> bool" where
  "is_digit c = (c \<in> set ''0123456789'')"

definition source_char :: "char \<Rightarrow> bool" where
  "source_char c = (c \<noteq> CHR '','' \<and> c \<noteq> CHR '']'')"

definition section_char :: "char \<Rightarrow> bool" where
  "section_char c = (c \<noteq> CHR '']'')"

definition page_group :: "string \<Rightarrow> (string option \<times> string) list" where
  "page_group s =
     [(Some digits, r5).
        r1 \<leftarrow> lit '','' s,
        (w1, r2) \<leftarrow> greedy is_space 0 r1,
        r3 \<leftarrow> lit ''Page:'' r2,
        (w2, r4) \<leftarrow> greedy is_space 0 r3,
        (digits, r5) \<leftarrow> greedy is_digit 1 r4] @
     [(None, s)]"

definition section_group :: "string \<Rightarrow> (string option \<times> string) list" where
  "section_group s =
     [(Some text, r5).
        r1 \<leftarrow> lit '','' s,
        (w1, r2) \<leftarrow> greedy is_space 0 r1,
        r3 \<leftarrow> lit ''Section:'' r2,
        (w2, r4) \<leftarrow> greedy is_space 0 r3,
        (text, r5) \<leftarrow> greedy section_char 1 r4] @
     [(None, s)]"

type_synonym groups = "string \<times> string option \<times> string option"

definition citation_pattern :: "string \<Rightarrow> (groups \<times> string) list" where
  "citation_pattern s =
     [((g1, g2, g3), r6).
        r1 \<leftarrow> lit ''[Source:'' s,
        (w1, r2) \<leftarrow> greedy is_space 0 r1,
        (g1, r3) \<leftarrow> greedy source_char 1 r2,
        (g2, r4) \<leftarrow> page_group r3,
        (g3, r5) \<leftarrow> section_group r4,
        r6 \<leftarrow> lit '']'' r5]"

text \<open>
  \<open>re.finditer\<close> scans from left to right: at a position where the pattern matches it
  yields the match and goes on at the end of that match, elsewhere it moves on by one
  character. A match has at least the characters of \<open>[Source:\<close>. \<open>finditer_from pos
  skip s\<close> scans the rest \<open>s\<close> of the text, which begins at offset \<open>pos\<close>, after
  passing over the \<open>skip\<close> characters that remain of the last match.
\<close>

record re_match =
  match_start :: nat
  match_end :: nat
  match_groups :: groups

fun finditer_from :: "nat \<Rightarrow> nat \<Rightarrow> string \<Rightarrow> re_match list" where
  "finditer_from pos skip [] = []"
| "finditer_from pos (Suc skip) (c # cs) = finditer_from (Suc pos) skip cs"
| "finditer_from pos 0 (c # cs) =
     (case citation_pattern (c # cs) of
        [] \<Rightarrow> finditer_from (Suc pos) 0 cs
      | (gs, rest) # _ \<Rightarrow>
          \<lparr>match_start = pos, match_end = pos + (length (c # cs) - length rest),
           match_groups = gs\<rparr> #
          finditer_from (Suc pos) (length (c # cs) - length rest - 1) cs)"

definition finditer :: "string \<Rightarrow> re_match list" where
  "finditer answer = finditer_from 0 0 answer"

text \<open>
  \<open>str.strip()\<close> drops the whitespace at both ends. \<open>int\<close> is applied to what \<open>\d+\<close>
  captured; on a string that is empty or has a character that is no digit the model raises
  \<open>ValueError\<close>.
\<close>

definition py_strip :: "string \<Rightarrow> string" where
  "py_strip s = rev (dropWhile is_space (rev (dropWhile is_space s)))"

definition digit_value :: "char \<Rightarrow> int" where
  "digit_value c = (case map_of (zip ''0123456789'' [0, 1, 2, 3, 4, 5, 6, 7, 8, 9]) c of
                      Some v \<Rightarrow> v | None \<Rightarrow> 0)"

definition py_int :: "string \<Rightarrow> error + int" where
  "py_int s =
     (if s \<noteq> [] \<and> list_all is_digit s
      then Inr (fold (\<lambda>c n. 10 * n + digit_value c) s 0)
      else Inl ValueError)"

text \<open>
  \<^verbatim>\<open>
  for match in matches:
      source = match.group(1).strip()
      page = int(match.group(2)) if match.group(2) else None
      section = match.group(3).strip() if match.group(3) else None
      chunk_text = ""
      for doc in retrieved_docs:
          if (doc.metadata.get('filename') == source and
              (page is None or doc.metadata.get('page') == page)):
              chunk_text = doc.page_content[:200] + "..."
              break
      citations.append(Citation(source=source, page=page, section=section,
                                chunk_text=chunk_text))
  return citations
  \<close>
\<close>

record citation =
  source :: string
  page :: "int option"
  section_name :: "string option"
  chunk_text :: string

fun find_chunk :: "string \<Rightarrow> int option \<Rightarrow> document list \<Rightarrow> string" where
  "find_chunk src pg [] = ''''"
| "find_chunk src pg (doc # retrieved_docs) =
     (if map_of (metadata doc) ''filename'' = Some (MStr src) \<and>
         (pg = None \<or> map_of (metadata doc) ''page'' = map_option MInt pg)
      then take 200 (page_content doc) @ ''...''
      else find_chunk src pg retrieved_docs)"

definition citation_of :: "document list \<Rightarrow> groups \<Rightarrow> error + citation" where
  "citation_of retrieved_docs = (\<lambda>(g1, g2, g3).
     let src = py_strip g1 in
     case (case g2 of
             None \<Rightarrow> Inr None
           | Some digits \<Rightarrow> if digits \<noteq> [] then map_sum id Some (py_int digits) else Inr None) of
       Inl e \<Rightarrow> Inl e
     | Inr pg \<Rightarrow>
         let sec = (case g3 of
                      None \<Rightarrow> None
                    | Some text \<Rightarrow> if text \<noteq> [] then Some (py_strip text) else None);
             excerpt = find_chunk src pg retrieved_docs
         in Inr \<lparr>source = src, page = pg, section_name = sec, chunk_text = excerpt\<rparr>)"

fun citations_of :: "document list \<Rightarrow> groups list \<Rightarrow> error + citation list" where
  "citations_of retrieved_docs [] = Inr []"
| "citations_of retrieved_docs (gs # rest) =
     (case citation_of retrieved_docs gs of
        Inl e \<Rightarrow> Inl e
      | Inr c \<Rightarrow>
          (case citations_of retrieved_docs rest of
             Inl e \<Rightarrow> Inl e
           | Inr cs \<Rightarrow> Inr (c # cs)))"

definition extract_citations :: "string \<Rightarrow> document list \<Rightarrow> error + citation list" where
  "extract_citations answer retrieved_docs =
     citations_of retrieved_docs (map match_groups (finditer answer))"

section \<open>Confidence (\<open>RAGChain._calculate_confidence\<close>)\<close>

text \<open>
  \<^verbatim>\<open>
  if not answer or answer.lower().startswith("i don't have"):
      return 0.0
  avg_score = sum(score for _, score in retrieved_docs) / len(retrieved_docs) if retrieved_docs else 0
  citation_factor = min(len(citations) / 3, 1.0)
  length_factor = min(len(answer) / 200, 1.0)
  confidence = (0.5 * avg_score + 0.3 * citation_factor + 0.2 * length_factor)
  return min(max(confidence, 0.0), 1.0)
  \<close>
\<close>

definition startswith :: "string \<Rightarrow> string \<Rightarrow> bool" where
  "startswith s prefix = (take (length prefix) s = prefix)"

definition refusal_phrase :: string where
  "refusal_phrase = ''i don'' @ [CHR 0x27] @ ''t have''"

definition calculate_confidence :: "string \<Rightarrow> scored list \<Rightarrow> citation list \<Rightarrow> real" where
  "calculate_confidence answer retrieved_docs citations =
     (if answer = [] \<or> startswith (py_lower answer) refusal_phrase then 0
      else
        let avg_score = (if retrieved_docs \<noteq> []
                         then sum_list (map snd retrieved_docs) / real (length retrieved_docs)
                         else 0);
            citation_factor = min (real (length citations) / 3) 1;
            length_factor = min (real (length answer) / 200) 1;
            confidence = 5 / 10 * avg_score + 3 / 10 * citation_factor + 2 / 10 * length_factor
        in min (max confidence 0) 1)"

section \<open>The query orchestrator (\<open>RAGChain.query\<close>)\<close>

text \<open>
  The language model is an external call: a function from the retrieved chunks with their
  scores (from which the context is formatted), the question and the chat history to the
  answer text. Local variables named like a field of the response are shortened (\<open>ans\<close>,
  \<open>cits\<close>, \<open>conf\<close>). The state of a \<open>RAGChain\<close> is its retriever and its conversation history;
  \<open>calls\<close> records, in order, the searches and the generator calls made, so that claims
  about what a query invokes can be stated. Failures of the external calls themselves
  (the store, the language model) are outside the model.
  \<^verbatim>\<open>
  def __init__(self, vector_store):
      self.vector_store = vector_store
      self.retriever = HybridRetriever(vector_store)
      ...
      self.conversation_history = []
  \<close>
  \<^verbatim>\<open>
  def query(self, question, use_conversation_history=True, search_mode="hybrid"):
      if search_mode == "hybrid":
          retrieved_docs = self.retriever.hybrid_search(question)
      elif search_mode == "vector":
          retrieved_docs = self.vector_store.similarity_search(question)
      else:  # keyword
          retrieved_docs = self.retriever.bm25_search(question)
      if not retrieved_docs:
          return RAGResponse(answer="I couldn't find any relevant information in the "
                                    "documents to answer this question.",
                             citations=[], confidence=0.0, retrieved_chunks=[])
      context = self._format_context(retrieved_docs)
      messages = []
      if use_conversation_history and Config.ENABLE_CONVERSATION_MEMORY:
          messages = self.conversation_history.copy()
      prompt = self.qa_prompt.format_messages(context=context, question=question,
          chat_history=messages if use_conversation_history else [])
      response = self.llm.invoke(prompt)
      answer = response.content
      docs_only = [doc for doc, _ in retrieved_docs]
      citations = self._extract_citations(answer, docs_only)
      confidence = self._calculate_confidence(answer, retrieved_docs, citations)
      if Config.ENABLE_CONVERSATION_MEMORY:
          self.conversation_history.append(HumanMessage(content=question))
          self.conversation_history.append(AIMessage(content=answer))
          if len(self.conversation_history) > 10:
              self.conversation_history = self.conversation_history[-10:]
      return RAGResponse(answer=answer, citations=citations, confidence=confidence,
                         retrieved_chunks=docs_only)
  \<close>
\<close>

datatype message = HumanMessage string | AIMessage string

datatype call = HybridSearch string | VectorSearch string | KeywordSearch string | LLMInvoke string

type_synonym llm = "scored list \<Rightarrow> string \<Rightarrow> message list \<Rightarrow> string"

record rag_response =
  answer :: string
  citations :: "citation list"
  confidence :: real
  retrieved_chunks :: "document list"

record rag_chain =
  retriever :: retriever
  conversation_history :: "message list"
  calls :: "call list"

definition RAGChain_init :: "document list \<Rightarrow> error + rag_chain" where
  "RAGChain_init all_documents =
     (case HybridRetriever_init all_documents of
        Inl e \<Rightarrow> Inl e
      | Inr r \<Rightarrow> Inr \<lparr>retriever = r, conversation_history = [], calls = []\<rparr>)"

definition no_information :: string where
  "no_information =
     ''I couldn'' @ [CHR 0x27] @
     ''t find any relevant information in the documents to answer this question.''"

definition retrieve ::
  "(real list \<Rightarrow> nat list) \<Rightarrow> config \<Rightarrow> store_search \<Rightarrow> rag_chain \<Rightarrow> string \<Rightarrow> string \<Rightarrow>
   (error + scored list) \<times> rag_chain" where
  "retrieve np_argsort cfg store self question search_mode =
     (if search_mode = ''hybrid''
      then (hybrid_search np_argsort cfg store (retriever self) question None (1 / 2),
            self\<lparr>calls := calls self @ [HybridSearch question]\<rparr>)
      else if search_mode = ''vector''
      then (Inr (similarity_search cfg store question None),
            self\<lparr>calls := calls self @ [VectorSearch question]\<rparr>)
      else (bm25_search np_argsort (retriever self) question 10,
            self\<lparr>calls := calls self @ [KeywordSearch question]\<rparr>))"

definition update_history :: "config \<Rightarrow> string \<Rightarrow> string \<Rightarrow> message list \<Rightarrow> message list" where
  "update_history cfg question ans history =
     (if ENABLE_CONVERSATION_MEMORY cfg
      then let history = history @ [HumanMessage question] @ [AIMessage ans]
           in if length history > 10 then drop (length history - 10) history else history
      else history)"

definition RAGChain_query ::
  "(real list \<Rightarrow> nat list) \<Rightarrow> config \<Rightarrow> store_search \<Rightarrow> llm \<Rightarrow> rag_chain \<Rightarrow> string \<Rightarrow> bool \<Rightarrow>
   string \<Rightarrow> error + (rag_response \<times> rag_chain)" where
  "RAGChain_query np_argsort cfg store llm_invoke self question use_conversation_history
     search_mode =
     (case retrieve np_argsort cfg store self question search_mode of
        (Inl e, self) \<Rightarrow> Inl e
      | (Inr retrieved_docs, self) \<Rightarrow>
          if retrieved_docs = []
          then Inr (\<lparr>answer = no_information, citations = [], confidence = 0,
                     retrieved_chunks = []\<rparr>, self)
          else
            let messages = (if use_conversation_history \<and> ENABLE_CONVERSATION_MEMORY cfg
                            then conversation_history self else []);
                chat_history = (if use_conversation_history then messages else []);
                ans = llm_invoke retrieved_docs question chat_history;
                self = self\<lparr>calls := calls self @ [LLMInvoke question]\<rparr>;
                docs_only = map fst retrieved_docs
            in case extract_citations ans docs_only of
                 Inl e \<Rightarrow> Inl e
               | Inr cits \<Rightarrow>
                   let conf = calculate_confidence ans retrieved_docs cits;
                       self = self\<lparr>conversation_history :=
                                update_history cfg question ans (conversation_history self)\<rparr>
                   in Inr (\<lparr>answer = ans, citations = cits, confidence = conf,
                              retrieved_chunks = docs_only\<rparr>, self))"

section \<open>Example inputs\<close>

text \<open>
  The examples index small corpora with the model of \<open>BM25Okapi\<close> above, so their scores
  are the ones the program computes, and the store returns chunks of the indexed corpus.
  The configuration has the defaults of \<open>config.py\<close>.

  In \<open>tie_docs\<close> two of five chunks hold the query word \<open>cat\<close> once and have the same
  length: both score \<open>log 3.5 - log 2.5\<close>.

  In \<open>cat_docs\<close> two of six chunks hold the word, in chunks of two and of four words, so
  their scores differ: \<open>cat_idf * 140 / 131\<close> and \<open>cat_idf * 28 / 37\<close>. A third chunk
  is about cats without the word; the store finds it, the lexical search does not.

  In \<open>dup_docs\<close> the text \<open>cat sat\<close> is stored twice, under two file names, as after
  indexing the same passage from two files; a third chunk holds the word in four words.
  The scores are \<open>dup_idf * 160 / 151\<close> for both copies and \<open>dup_idf * 80 / 107\<close>.
\<close>

definition default_config :: config where
  "default_config =
     \<lparr>TOP_K_RESULTS = 5, SIMILARITY_THRESHOLD = 7 / 10, ENABLE_CONVERSATION_MEMORY = True\<rparr>"

definition chunk :: "string \<Rightarrow> string \<Rightarrow> document" where
  "chunk name content = \<lparr>page_content = content, metadata = [(''filename'', MStr name)]\<rparr>"

definition tie_docs :: "document list" where
  "tie_docs = [chunk ''a.txt'' ''cat sat'', chunk ''b.txt'' ''cat ran'',
               chunk ''d.txt'' ''dog barked'', chunk ''e.txt'' ''bird flew'',
               chunk ''f.txt'' ''fish swam'']"

definition tie_retriever :: retriever where
  "tie_retriever = projr (HybridRetriever_init tie_docs)"




definition cat_store :: store_search where
  "cat_store query k =
     take k [(chunk ''a.txt'' ''cat sat'', 9 / 10), (chunk ''s.txt'' ''feline pet'', 4 / 5)]"

definition dup_docs :: "document list" where
  "dup_docs = [chunk ''a.txt'' ''cat sat'', chunk ''b.txt'' ''cat sat'',
               chunk ''c.txt'' ''cat ran far away'', chunk ''s.txt'' ''feline pet'',
               chunk ''d.txt'' ''dog barked'', chunk ''e.txt'' ''bird flew'',
               chunk ''f.txt'' ''fish swam'']"

definition dup_retriever :: retriever where
  "dup_retriever = projr (HybridRetriever_init dup_docs)"

definition dup_idf :: real where
  "dup_idf = ln (9 / 2) - ln (7 / 2)"

definition dup_store :: store_search where
  "dup_store query k =
     take k [(chunk ''a.txt'' ''cat sat'', 9 / 10), (chunk ''b.txt'' ''cat sat'', 9 / 10),
             (chunk ''c.txt'' ''cat ran far away'', 4 / 5)]"

text \<open>
  A one-chunk corpus for the orchestrator, with a store that finds the chunk and a
  language model that answers with one citation of it.
\<close>

definition geo_chunk :: document where
  "geo_chunk =
     \<lparr>page_content = ''Paris is the capital of France.'',
      metadata = [(''filename'', MStr ''geo.pdf''), (''page'', MInt 3)]\<rparr>"

definition geo_store :: store_search where
  "geo_store query k = take k [(geo_chunk, 9 / 10)]"

definition geo_llm :: llm where
  "geo_llm retrieved_docs question chat_history =
     ''Paris is the capital. [Source: geo.pdf, Page: 3]''"

definition geo_chain :: rag_chain where
  "geo_chain = projr (RAGChain_init [geo_chunk])"

section \<open>Properties of the normaliser\<close>

lemma py_max_Max:
  assumes "scores \<noteq> []"
  shows "py_max scores = Max (set scores)"
proof -
  from assms obtain a list where "scores = a # list"
    by (cases scores) auto
  then show ?thesis
    using Max.set_eq_fold [of a list] by (simp add: py_max_def)
qed

lemma py_min_Min:
  assumes "scores \<noteq> []"
  shows "py_min scores = Min (set scores)"
proof -
  from assms obtain a list where "scores = a # list"
    by (cases scores) auto
  then show ?thesis
    using Min.set_eq_fold [of a list] by (simp add: py_min_def)
qed

lemma normalize_scores_nth:
  assumes "i < length results"
  shows "normalize_scores results ! i =
           (fst (results ! i),
            (snd (results ! i) - Min (snd ` set results)) /
              (if Max (snd ` set results) \<noteq> Min (snd ` set results)
               then Max (snd ` set results) - Min (snd ` set results) else 1))"
proof -
  from assms have ne: "results \<noteq> []" by auto
  then have "map snd results \<noteq> []" by simp
  then have "py_max (map snd results) = Max (snd ` set results)"
    and "py_min (map snd results) = Min (snd ` set results)"
    by (simp_all add: py_max_Max py_min_Min)
  with ne assms show ?thesis
    by (simp add: normalize_scores_def Let_def case_prod_beta)
qed

lemma normalize_scores_length [simp]: "length (normalize_scores results) = length results"
  by (simp add: normalize_scores_def Let_def)

lemma normalize_scores_fst [simp]: "map fst (normalize_scores results) = map fst results"
  by (simp add: normalize_scores_def Let_def case_prod_beta)

lemma normalize_scores_range:
  assumes "i < length results"
  shows "0 \<le> snd (normalize_scores results ! i) \<and> snd (normalize_scores results ! i) \<le> 1"
proof -
  let ?S = "snd ` set results"
  let ?s = "snd (results ! i)"
  have fin: "finite ?S" by simp
  have mem: "?s \<in> ?S" using assms by simp
  have lo: "Min ?S \<le> ?s" using fin mem by (rule Min_le)
  have hi: "?s \<le> Max ?S" using fin mem by (rule Max_ge)
  show ?thesis
  proof (cases "Max ?S = Min ?S")
    case True
    with lo hi have "?s = Min ?S" by linarith
    with True assms show ?thesis by (simp add: normalize_scores_nth)
  next
    case False
    with lo hi have pos: "0 < Max ?S - Min ?S" by linarith
    from lo hi pos have "0 \<le> (?s - Min ?S) / (Max ?S - Min ?S)"
      and "(?s - Min ?S) / (Max ?S - Min ?S) \<le> 1"
      by (simp_all add: divide_le_eq)
    with False assms show ?thesis by (simp add: normalize_scores_nth)
  qed
qed

text \<open>
  Claim C2. Normalising the empty list gives the empty list. On a non-empty list the
  items and their order are kept, every output score lies in \<open>[0,1]\<close>, and the rescaling
  is linear: when the scores are not all equal each score \<open>s\<close> maps to
  \<open>(s - min) / (max - min)\<close>, so the maximum maps to exactly 1 and the minimum to
  exactly 0; when all scores are equal every score maps to 0.
\<close>

theorem normalize_scores_bounds:
  "normalize_scores ([] :: ('d \<times> real) list) = [] \<and>
   ((results :: ('d \<times> real) list) \<noteq> [] \<longrightarrow>
      map fst (normalize_scores results) = map fst results \<and>
      (\<forall>i < length results.
         0 \<le> snd (normalize_scores results ! i) \<and> snd (normalize_scores results ! i) \<le> 1) \<and>
      (if Max (snd ` set results) \<noteq> Min (snd ` set results)
       then \<forall>i < length results.
              snd (normalize_scores results ! i) =
                (snd (results ! i) - Min (snd ` set results)) /
                  (Max (snd ` set results) - Min (snd ` set results)) \<and>
              (snd (results ! i) = Max (snd ` set results) \<longrightarrow>
                 snd (normalize_scores results ! i) = 1) \<and>
              (snd (results ! i) = Min (snd ` set results) \<longrightarrow>
                 snd (normalize_scores results ! i) = 0)
       else \<forall>i < length results. snd (normalize_scores results ! i) = 0))"
proof -
  let ?S = "snd ` set results"
  have e: "normalize_scores ([] :: ('d \<times> real) list) = []"
    by (simp add: normalize_scores_def)
  have r: "\<forall>i < length results.
      0 \<le> snd (normalize_scores results ! i) \<and> snd (normalize_scores results ! i) \<le> 1"
    using normalize_scores_range by blast
  have c: "if Max ?S \<noteq> Min ?S
       then \<forall>i < length results.
              snd (normalize_scores results ! i) =
                (snd (results ! i) - Min ?S) / (Max ?S - Min ?S) \<and>
              (snd (results ! i) = Max ?S \<longrightarrow> snd (normalize_scores results ! i) = 1) \<and>
              (snd (results ! i) = Min ?S \<longrightarrow> snd (normalize_scores results ! i) = 0)
       else \<forall>i < length results. snd (normalize_scores results ! i) = 0"
  proof (cases "Max ?S = Min ?S")
    case True
    have "snd (normalize_scores results ! i) = 0" if "i < length results" for i
    proof -
      have "snd (results ! i) \<in> ?S" using that by simp
      then have "Min ?S \<le> snd (results ! i)" "snd (results ! i) \<le> Max ?S" by simp_all
      with True have "snd (results ! i) = Min ?S" by linarith
      with True that show ?thesis by (simp add: normalize_scores_nth)
    qed
    with True show ?thesis by simp
  next
    case False
    then show ?thesis by (simp add: normalize_scores_nth)
  qed
  from e r c show ?thesis by simp
qed

theorem normalize_scores_bounds_witness:
  "[(''a'', 3), (''b'', 1), (''c'', 2 :: real)] \<noteq> [] \<and>
   normalize_scores [(''a'', 3), (''b'', 1), (''c'', 2 :: real)] =
     [(''a'', 1), (''b'', 0), (''c'', 1 / 2)] \<and>
   snd (normalize_scores [(''a'', 3), (''b'', 1), (''c'', 2 :: real)] ! 0) \<le> 1"
  using normalize_scores_bounds [of "[(''a'', 3), (''b'', 1), (''c'', 2 :: real)]"]
  by (simp add: normalize_scores_def py_max_def py_min_def)

section \<open>Lexical search\<close>












lemma HybridRetriever_init_built:
  assumes "all_documents \<noteq> []"
    and "concat (map (\<lambda>doc. tokenize (page_content doc)) all_documents) \<noteq> []"
  shows "HybridRetriever_init all_documents =
           Inr \<lparr>documents = all_documents,
                bm25 = Some (get_scores (map (\<lambda>doc. tokenize (page_content doc)) all_documents))\<rparr>"
  using assms
  by (simp add: HybridRetriever_init_def update_bm25_index_def BM25Okapi_def vocabulary_def)

lemma HybridRetriever_init_documents:
  "HybridRetriever_init all_documents = Inr r \<Longrightarrow> documents r = all_documents"
  by (auto simp: HybridRetriever_init_def update_bm25_index_def Let_def
      split: if_splits sum.splits)



lemma tie_retriever_init:
  "HybridRetriever_init tie_docs =
     Inr \<lparr>documents = tie_docs,
          bm25 = Some (get_scores
      [[''cat'', ''sat''], [''cat'', ''ran''], [''dog'', ''barked''],
       [''bird'', ''flew''], [''fish'', ''swam'']])\<rparr>"
proof -
  have tok: "map (\<lambda>doc. tokenize (page_content doc)) tie_docs =
      [[''cat'', ''sat''], [''cat'', ''ran''], [''dog'', ''barked''],
       [''bird'', ''flew''], [''fish'', ''swam'']]"
    by code_simp
  have "tie_docs \<noteq> []" by (simp add: tie_docs_def)
  moreover have "concat (map (\<lambda>doc. tokenize (page_content doc)) tie_docs) \<noteq> []"
    unfolding tok by simp
  ultimately have "HybridRetriever_init tie_docs =
      Inr \<lparr>documents = tie_docs,
           bm25 = Some (get_scores (map (\<lambda>doc. tokenize (page_content doc)) tie_docs))\<rparr>"
    by (rule HybridRetriever_init_built)
  then show ?thesis unfolding tok .
qed

lemma tie_retriever_eq:
  "tie_retriever =
     \<lparr>documents = tie_docs,
      bm25 = Some (get_scores
      [[''cat'', ''sat''], [''cat'', ''ran''], [''dog'', ''barked''],
       [''bird'', ''flew''], [''fish'', ''swam'']])\<rparr>"
  by (simp add: tie_retriever_def tie_retriever_init)



lemma tie_retriever_built: "HybridRetriever_init tie_docs = Inr tie_retriever"
  by (simp only: tie_retriever_eq tie_retriever_init)

















end
